theory Spec2Isabelle
  imports Main "HOL-Library.AList" "HOL-Library.Sublist"
begin

section \<open>Values, dictionaries and errors\<close>

text \<open>
  The request bodies of \<^verbatim>\<open>cli/main.py\<close> are Python dictionaries, lists, strings and
  integers that end up serialised as JSON. A dictionary keeps its keys in insertion order
  and an assignment \<^verbatim>\<open>d[k] = v\<close> replaces the value of an existing key in place or
  appends a new key: this is \<open>AList.update\<close> on an association list, and \<open>map_of\<close> reads
  a key. \<open>PNone\<close> is Python's \<^verbatim>\<open>None\<close>, which JSON serialises as \<^verbatim>\<open>null\<close>.
\<close>

datatype pyval =
    PNone
  | PInt int
  | PStr string
  | PList "pyval list"
  | PDict "(string \<times> pyval) list"

type_synonym pydict = "(string \<times> pyval) list"

text \<open>
  Every exception of the payload builder is a \<^verbatim>\<open>ValueError\<close>. \<open>ValueError\<close> carries the
  message the repository's code passes. The other two are the \<^verbatim>\<open>ValueError\<close>s of the
  builtin \<^verbatim>\<open>int\<close>, whose messages are the interpreter's: \<open>InvalidLiteral s\<close> for a
  string \<open>s\<close> that is not an integer literal, \<open>ExceedsDigitLimit n\<close> for a literal of
  \<open>n\<close> digits, more than the interpreter converts. \<open>HTTPError\<close> and
  \<open>JSONDecodeError\<close> come from the HTTP client.
\<close>

datatype error =
    ValueError string
  | InvalidLiteral string
  | ExceedsDigitLimit nat
  | HTTPError
  | JSONDecodeError

text \<open>Truthiness of a value that is a string or \<^verbatim>\<open>None\<close>, and the string itself.\<close>

fun truthy :: "string option \<Rightarrow> bool" where
  "truthy None = False"
| "truthy (Some s) = (s \<noteq> [])"

fun str_of :: "string option \<Rightarrow> string" where
  "str_of None = []"
| "str_of (Some s) = s"

text \<open>Reading a key of a value that is a dictionary.\<close>

fun lookup :: "string \<Rightarrow> pyval \<Rightarrow> pyval option" where
  "lookup k (PDict d) = map_of d k"
| "lookup k _ = None"

definition has_key :: "string \<Rightarrow> pyval \<Rightarrow> bool" where
  "has_key k v = (lookup k v \<noteq> None)"

text \<open>Whether \<^verbatim>\<open>None\<close> occurs anywhere inside a value.\<close>

fun has_null :: "pyval \<Rightarrow> bool" where
  "has_null PNone = True"
| "has_null (PInt _) = False"
| "has_null (PStr _) = False"
| "has_null (PList xs) = list_ex has_null xs"
| "has_null (PDict kvs) = list_ex has_null (map snd kvs)"

section \<open>The builtins the code calls\<close>

subsection \<open>\<^verbatim>\<open>str.split(sep)\<close> with a one-character separator\<close>

text \<open>
  \<^verbatim>\<open>s.split(":")\<close> cuts at every occurrence of the separator and keeps empty pieces:
  the result has one more element than \<^verbatim>\<open>s\<close> has separators.
\<close>

fun split_acc :: "char \<Rightarrow> string \<Rightarrow> string \<Rightarrow> string list" where
  "split_acc sep cur [] = [rev cur]"
| "split_acc sep cur (c # cs) =
     (if c = sep then rev cur # split_acc sep [] cs else split_acc sep (c # cur) cs)"

definition split :: "char \<Rightarrow> string \<Rightarrow> string list" where
  "split sep s = split_acc sep [] s"

text \<open>\<^verbatim>\<open>sep.join(parts)\<close>, the inverse the split is compared with.\<close>

fun join :: "string \<Rightarrow> string list \<Rightarrow> string" where
  "join sep [] = []"
| "join sep [p] = p"
| "join sep (p # q # ps) = p @ sep @ join sep (q # ps)"

subsection \<open>\<^verbatim>\<open>int(x)\<close>\<close>

text \<open>
  \<^verbatim>\<open>int\<close> applied to a string, base 10. A \<open>char\<close> stands for a code point below 256;
  text with higher code points is outside the model. The conversion, in the order in which
  CPython makes its checks:
  \<^item> whitespace is stripped at both ends: tab, line feed, vertical tab, form feed,
    carriage return, space, and the two whitespace code points above ASCII in that range,
    U+0085 and U+00A0 (the control characters U+001C to U+001F are not stripped);
  \<^item> one sign may follow;
  \<^item> then comes the longest run of decimal digits and underscores; it must start with a
    digit, and an underscore must stand between two digits, else the string is not a
    literal;
  \<^item> a run of more digits than \<open>int_max_str_digits\<close> is refused. That limit is an
    interpreter setting; 4300 is its default, and the program does not change it;
  \<^item> nothing may follow the run, else the string is not a literal.
  Leading zeros are accepted and count as digits.
\<close>

definition is_space :: "char \<Rightarrow> bool" where
  "is_space c = (of_char c \<in> set [9, 10, 11, 12, 13, 32, 133, 160 :: nat])"

definition is_digit :: "char \<Rightarrow> bool" where
  "is_digit c = (48 \<le> (of_char c :: nat) \<and> (of_char c :: nat) \<le> 57)"

definition digit_val :: "char \<Rightarrow> nat" where
  "digit_val c = of_char c - 48"

definition strip :: "string \<Rightarrow> string" where
  "strip s = rev (dropWhile is_space (rev (dropWhile is_space s)))"

definition int_max_str_digits :: nat where
  "int_max_str_digits = 4300"

definition in_run :: "char \<Rightarrow> bool" where
  "in_run c = (is_digit c \<or> c = CHR ''_'')"

fun digits_acc :: "nat \<Rightarrow> string \<Rightarrow> nat option" where
  "digits_acc acc [] = Some acc"
| "digits_acc acc (c # cs) =
     (if is_digit c then digits_acc (10 * acc + digit_val c) cs
      else if c = CHR ''_'' \<and> cs \<noteq> [] \<and> is_digit (hd cs) then digits_acc acc cs
      else None)"

definition unsigned_literal :: "string \<Rightarrow> nat option" where
  "unsigned_literal body =
     (case body of
        [] \<Rightarrow> None
      | d # _ \<Rightarrow> if is_digit d then digits_acc 0 body else None)"

definition int_of_str :: "string \<Rightarrow> error + int" where
  "int_of_str s =
     (case strip s of
        [] \<Rightarrow> Inl (InvalidLiteral s)
      | c # cs \<Rightarrow>
          (let neg = (c = CHR ''-'');
               body = (if c = CHR ''-'' \<or> c = CHR ''+'' then cs else c # cs);
               run = takeWhile in_run body
           in case unsigned_literal run of
                None \<Rightarrow> Inl (InvalidLiteral s)
              | Some n \<Rightarrow>
                  if length (filter is_digit run) > int_max_str_digits then
                    Inl (ExceedsDigitLimit (length (filter is_digit run)))
                  else if run \<noteq> body then Inl (InvalidLiteral s)
                  else Inr (if neg then - int n else int n)))"

text \<open>
  The command line hands each \<^verbatim>\<open>--test-priority\<close> over as a \<^verbatim>\<open>str\<close>; the unit test
  passes \<^verbatim>\<open>int\<close> objects, which \<^verbatim>\<open>int\<close> returns unchanged. The conversion is the
  one place where the builder computes on an argument whose type the caller chooses, so
  both are kept; the arguments that are only copied into the result have the types of the
  signature.
\<close>

datatype priority = OfStr string | OfInt int

fun py_int :: "priority \<Rightarrow> error + int" where
  "py_int (OfInt n) = Inr n"
| "py_int (OfStr s) = int_of_str s"

text \<open>
  The comprehension \<^verbatim>\<open>[int(x) for x in test_priorities]\<close>: left to right, the first
  conversion that raises ends it.
\<close>

fun int_each :: "priority list \<Rightarrow> error + int list" where
  "int_each [] = Inr []"
| "int_each (x # xs) =
     (case py_int x of
        Inl e \<Rightarrow> Inl e
      | Inr n \<Rightarrow> (case int_each xs of Inl e \<Rightarrow> Inl e | Inr ns \<Rightarrow> Inr (n # ns)))"

section \<open>The payload builder\<close>

definition RESOURCE_PROVIDER :: string where
  "RESOURCE_PROVIDER = ''Microsoft.AzureImageTestingForLinux''"

definition API_VERSION :: string where
  "API_VERSION = ''2023-08-01-preview''"

definition get_endpoint :: "string \<Rightarrow> string \<Rightarrow> string \<Rightarrow> string" where
  "get_endpoint segment resource_group subscription_id =
     ''https://eastus2euap.management.azure.com/subscriptions/'' @ subscription_id @ ''/''
     @ ''resourceGroups/'' @ resource_group @ ''/providers/'' @ RESOURCE_PROVIDER @ ''/''
     @ segment @ ''?api-version='' @ API_VERSION"

text \<open>
  \<^verbatim>\<open>_create_template\<close>. \<open>vm_size\<close> is \<^verbatim>\<open>None\<close> when the option is not given. The
  \<open>location\<close> argument is not used by the body.
\<close>

definition create_template ::
  "string option \<Rightarrow> priority list \<Rightarrow> string list \<Rightarrow> string \<Rightarrow> string list \<Rightarrow> int
     \<Rightarrow> error + pydict" where
  "create_template vm_size test_priorities test_cases location regions concurrency =
     (let template = [(''templateTags'', PList [])];
          selection = []
      in case (if test_priorities \<noteq> []
               then (case int_each test_priorities of
                       Inl e \<Rightarrow> Inl e
                     | Inr ns \<Rightarrow>
                         Inr (AList.update ''casePriority'' (PList (map PInt ns)) selection))
               else Inr selection) of
           Inl e \<Rightarrow> Inl e
         | Inr selection \<Rightarrow>
            (let selection = (if test_cases \<noteq> []
                              then AList.update ''caseName'' (PList (map PStr test_cases)) selection
                              else selection);
                 template = (if selection \<noteq> []
                             then AList.update ''selections'' (PList [PDict selection]) template
                             else template);
                 template = AList.update ''region''
                              (PList (map PStr (if regions \<noteq> [] then regions else []))) template;
                 template = AList.update ''vmSize''
                              (PList (if truthy vm_size then [PStr (str_of vm_size)] else []))
                              template;
                 template = AList.update ''concurrency'' (PInt concurrency) template
             in Inr template))"

text \<open>
  \<^verbatim>\<open>make_job_create_request\<close>. The two image sources are \<^verbatim>\<open>None\<close> when their option
  is not given. The endpoint is computed first; \<open>make_image\<close> is the part of the body
  that fills the \<^verbatim>\<open>image\<close> dictionary and checks the image source (an exception raised
  there leaves the function); then the template is built and the payload assembled.
\<close>

definition only_one_msg :: string where
  "only_one_msg =
     ''Only one of --vhd-sas-url or --marketplace-image-urn can be used for a given test job.''"

definition one_of_msg :: string where
  "one_of_msg = ''One of --vhd-sas-url or --marketplace-image-urn should be passed.''"

definition urn_format_msg :: "string \<Rightarrow> string" where
  "urn_format_msg marketplace_image_urn =
     ''marketplace_image_urn should be in the format of '' @ [CHR 0x27]
     @ ''publisher:offer:sku:version'' @ [CHR 0x27] @ '', '' @ ''got '' @ marketplace_image_urn"

definition make_image ::
  "string option \<Rightarrow> string option \<Rightarrow> int \<Rightarrow> string \<Rightarrow> error + pydict" where
  "make_image marketplace_image_urn vhd_sas_url vm_generation architecture =
     (let image = [(''vhdGeneration'', PInt vm_generation),
                   (''architecture'', PStr architecture)]
      in if truthy marketplace_image_urn \<and> truthy vhd_sas_url then
           Inl (ValueError only_one_msg)
         else if truthy marketplace_image_urn then
           (let image = AList.update ''type'' (PStr ''marketplace'') image;
                image_parts = split CHR '':'' (str_of marketplace_image_urn)
            in if length image_parts \<noteq> 4 then
                 Inl (ValueError (urn_format_msg (str_of marketplace_image_urn)))
               else
                 Inr (AList.update ''version'' (PStr (image_parts ! 3))
                     (AList.update ''sku'' (PStr (image_parts ! 2))
                     (AList.update ''offer'' (PStr (image_parts ! 1))
                     (AList.update ''publisher'' (PStr (image_parts ! 0)) image)))))
         else if truthy vhd_sas_url then
           Inr (AList.update ''url'' (PStr (str_of vhd_sas_url))
               (AList.update ''type'' (PStr ''vhd'') image))
         else
           Inl (ValueError one_of_msg))"

definition make_job_create_request ::
  "string option \<Rightarrow> string option \<Rightarrow> string \<Rightarrow> string \<Rightarrow> string \<Rightarrow> string \<Rightarrow> string option
     \<Rightarrow> priority list \<Rightarrow> string list \<Rightarrow> string \<Rightarrow> string list \<Rightarrow> int \<Rightarrow> int \<Rightarrow> string
     \<Rightarrow> error + (pyval \<times> string)" where
  "make_job_create_request marketplace_image_urn vhd_sas_url job_name template_name
       resource_group subscription_id vm_size test_priorities test_cases location region
       concurrency vm_generation architecture =
     (let endpoint = get_endpoint (''jobs/'' @ job_name) resource_group subscription_id
      in case make_image marketplace_image_urn vhd_sas_url vm_generation architecture of
           Inl e \<Rightarrow> Inl e
         | Inr image_dict \<Rightarrow>
            (case create_template vm_size test_priorities test_cases location region
                    concurrency of
               Inl e \<Rightarrow> Inl e
             | Inr template \<Rightarrow>
                 Inr (PDict [(''location'', PStr location),
                             (''properties'',
                                PDict [(''jobTemplateName'', PStr template_name),
                                       (''jobTemplateInstance'', PDict template),
                                       (''image'', PDict image_dict)])],
                      endpoint)))"

section \<open>The \<^verbatim>\<open>create-job\<close> command\<close>

text \<open>
  The command handler is the caller of \<^verbatim>\<open>make_job_create_request\<close>: it builds the
  request, sends it with \<^verbatim>\<open>session.put\<close> and prints the answer. What the handler does
  to the outside world is recorded as a list of events, in order. The answer of the server
  is not the program's: \<^verbatim>\<open>session.put\<close> is a field of the context, and a response
  holds whether its status is a success and the JSON it decodes to (\<open>None\<close> when the
  body is not JSON, where \<^verbatim>\<open>resp.json()\<close> raises). The group callback, which
  authenticates and fills the context before any handler runs, is not part of the handler.
\<close>

record response =
  resp_ok :: bool
  resp_json :: "pyval option"

datatype event =
    HttpPut string pyval
  | PrintRaw pyval
  | PrintJson pyval

record ctx =
  ctx_session_put :: "string \<Rightarrow> pyval \<Rightarrow> response"
  ctx_resource_group :: string
  ctx_subscription_id :: string

definition output_result :: "response \<Rightarrow> event list \<times> (error + unit)" where
  "output_result resp =
     (if \<not> resp_ok resp then
        (case resp_json resp of
           None \<Rightarrow> ([], Inl JSONDecodeError)
         | Some j \<Rightarrow> ([PrintRaw j], Inl HTTPError))
      else
        (case resp_json resp of
           None \<Rightarrow> ([], Inl JSONDecodeError)
         | Some j \<Rightarrow> ([PrintJson j], Inr ())))"

definition create_job ::
  "ctx \<Rightarrow> string \<Rightarrow> string option \<Rightarrow> string option \<Rightarrow> string \<Rightarrow> string \<Rightarrow> int
     \<Rightarrow> string option \<Rightarrow> priority list \<Rightarrow> string list \<Rightarrow> string \<Rightarrow> int \<Rightarrow> string list
     \<Rightarrow> event list \<times> (error + unit)" where
  "create_job c name marketplace_image_urn vhd_sas_url architecture template_name
       vm_generation vm_size test_priorities test_cases location concurrency region =
     (case make_job_create_request marketplace_image_urn vhd_sas_url name template_name
             (ctx_resource_group c) (ctx_subscription_id c) vm_size test_priorities
             test_cases location region concurrency vm_generation architecture of
        Inl e \<Rightarrow> ([], Inl e)
      | Inr (payload, endpoint) \<Rightarrow>
          (let resp = ctx_session_put c endpoint payload;
               (out, res) = output_result resp
           in (HttpPut endpoint payload # out, res)))"

section \<open>Notions the properties are stated with\<close>

text \<open>The image object of a payload: \<^verbatim>\<open>payload["properties"]["image"]\<close>.\<close>

definition image_of :: "pyval \<Rightarrow> pyval option" where
  "image_of payload =
     (case lookup ''properties'' payload of
        None \<Rightarrow> None
      | Some props \<Rightarrow> lookup ''image'' props)"

text \<open>
  A numeric string is a non-empty string of decimal digits; a priority is numeric when it
  is such a string or already an integer. It is within the digit limit when, as a string,
  it is no longer than the interpreter converts. The value of a numeric priority is the
  number its digits write in base 10.
\<close>

fun numeric :: "priority \<Rightarrow> bool" where
  "numeric (OfStr s) = (s \<noteq> [] \<and> list_all is_digit s)"
| "numeric (OfInt n) = True"

fun within_digit_limit :: "priority \<Rightarrow> bool" where
  "within_digit_limit (OfStr s) = (length s \<le> int_max_str_digits)"
| "within_digit_limit (OfInt n) = True"

definition decimal :: "string \<Rightarrow> nat" where
  "decimal s = foldl (\<lambda>a c. 10 * a + digit_val c) 0 s"

fun priority_value :: "priority \<Rightarrow> int" where
  "priority_value (OfStr s) = int (decimal s)"
| "priority_value (OfInt n) = n"

section \<open>Facts about the builtins\<close>

lemma split_acc_not_Nil: "split_acc sep cur s \<noteq> []"
  by (induction s arbitrary: cur) auto

lemma join_Cons: "xs \<noteq> [] \<Longrightarrow> join sep (p # xs) = p @ sep @ join sep xs"
  by (cases xs) auto

lemma split_acc_no_sep:
  "sep \<notin> set cur \<Longrightarrow> \<forall>p \<in> set (split_acc sep cur s). sep \<notin> set p"
proof (induction s arbitrary: cur)
  case Nil
  then show ?case by simp
next
  case (Cons c cs)
  show ?case
  proof (cases "c = sep")
    case True
    with Cons.prems Cons.IH [of "[]"] show ?thesis by simp
  next
    case False
    with Cons.prems Cons.IH [of "c # cur"] show ?thesis by simp
  qed
qed

lemma join_split_acc: "join [sep] (split_acc sep cur s) = rev cur @ s"
  by (induction s arbitrary: cur) (auto simp: join_Cons split_acc_not_Nil)

lemma split_no_sep: "p \<in> set (split sep s) \<Longrightarrow> sep \<notin> set p"
  using split_acc_no_sep [of sep "[]" s] by (simp add: split_def)

lemma join_split: "join [sep] (split sep s) = s"
  by (simp add: split_def join_split_acc)

lemma split_Nil: "split sep [] = [[]]"
  by (simp add: split_def)

lemma digits_acc_all_digits:
  "list_all is_digit s \<Longrightarrow> digits_acc a s = Some (foldl (\<lambda>a c. 10 * a + digit_val c) a s)"
  by (induction s arbitrary: a) auto

lemma digit_not_space: "is_digit c \<Longrightarrow> \<not> is_space c"
  by (auto simp: is_digit_def is_space_def)

lemma digit_not_sign: "is_digit c \<Longrightarrow> c \<noteq> CHR ''-'' \<and> c \<noteq> CHR ''+''"
  by (auto simp: is_digit_def)

lemma strip_digits:
  assumes "s \<noteq> []" "list_all is_digit s"
  shows "strip s = s"
proof -
  from assms have "is_digit (hd s)" "is_digit (last s)"
    by (auto simp: list_all_iff)
  then have h: "\<not> is_space (hd s)" "\<not> is_space (hd (rev s))"
    using assms(1) by (auto simp: digit_not_space hd_rev)
  from h(1) assms(1) have "dropWhile is_space s = s"
    by (cases s) auto
  moreover from h(2) assms(1) have "dropWhile is_space (rev s) = rev s"
    by (cases "rev s") auto
  ultimately show ?thesis by (simp add: strip_def)
qed

lemma run_digits:
  assumes "list_all is_digit s"
  shows "takeWhile in_run s = s" and "filter is_digit s = s"
  using assms by (auto simp: list_all_iff in_run_def)

lemma int_of_str_all_digits:
  assumes "s \<noteq> []" "list_all is_digit s"
  shows "int_of_str s =
         (if length s > int_max_str_digits then Inl (ExceedsDigitLimit (length s))
          else Inr (int (decimal s)))"
proof -
  obtain c cs where s: "s = c # cs" using assms(1) by (cases s) auto
  with assms(2) have c: "is_digit c" by simp
  have r: "takeWhile in_run (c # cs) = c # cs" "filter is_digit (c # cs) = c # cs"
    using run_digits [OF assms(2)] by (simp_all add: s)
  have "digits_acc 0 s = Some (decimal s)"
    using digits_acc_all_digits [OF assms(2), of 0] by (simp add: decimal_def)
  then have u: "unsigned_literal (c # cs) = Some (decimal (c # cs))"
    using c by (simp add: unsigned_literal_def s)
  have st: "strip (c # cs) = c # cs"
    using strip_digits [OF assms] by (simp add: s)
  show ?thesis
    unfolding s int_of_str_def st
    using digit_not_sign [OF c] by (simp add: Let_def r u del: takeWhile.simps filter.simps)
qed

lemma py_int_numeric:
  "numeric p \<Longrightarrow> within_digit_limit p \<Longrightarrow> py_int p = Inr (priority_value p)"
  by (cases p) (auto simp: int_of_str_all_digits)

lemma int_each_numeric:
  "list_all numeric tp \<Longrightarrow> list_all within_digit_limit tp \<Longrightarrow>
   int_each tp = Inr (map priority_value tp)"
  by (induction tp) (auto simp: py_int_numeric)


section \<open>Facts about the two builders\<close>

lemma create_template_eq:
  "create_template vm_size tp tc loc rg cc =
     (case int_each tp of
        Inl e \<Rightarrow> Inl e
      | Inr ns \<Rightarrow>
          Inr ([(''templateTags'', PList [])]
               @ (if tp \<noteq> [] \<or> tc \<noteq> []
                  then [(''selections'',
                         PList [PDict ((if tp \<noteq> []
                                        then [(''casePriority'', PList (map PInt ns))]
                                        else [])
                                       @ (if tc \<noteq> []
                                          then [(''caseName'', PList (map PStr tc))]
                                          else []))])]
                  else [])
               @ [(''region'', PList (map PStr rg)),
                  (''vmSize'', PList (if truthy vm_size then [PStr (str_of vm_size)] else [])),
                  (''concurrency'', PInt cc)]))"
  by (cases tp) (auto simp: create_template_def split: sum.splits)

lemma make_image_both:
  "truthy urn \<Longrightarrow> truthy vhd \<Longrightarrow> make_image urn vhd g a = Inl (ValueError only_one_msg)"
  by (simp add: make_image_def)

lemma make_image_neither:
  "\<not> truthy urn \<Longrightarrow> \<not> truthy vhd \<Longrightarrow> make_image urn vhd g a = Inl (ValueError one_of_msg)"
  by (simp add: make_image_def)

lemma make_image_malformed:
  "truthy urn \<Longrightarrow> \<not> truthy vhd \<Longrightarrow> length (split CHR '':'' (str_of urn)) \<noteq> 4 \<Longrightarrow>
   make_image urn vhd g a = Inl (ValueError (urn_format_msg (str_of urn)))"
  by (simp add: make_image_def)

lemma make_image_vhd:
  "\<not> truthy urn \<Longrightarrow> truthy vhd \<Longrightarrow>
   make_image urn vhd g a =
     Inr [(''vhdGeneration'', PInt g), (''architecture'', PStr a),
          (''type'', PStr ''vhd''), (''url'', PStr (str_of vhd))]"
  by (simp add: make_image_def)

lemma make_image_marketplace:
  "truthy urn \<Longrightarrow> \<not> truthy vhd \<Longrightarrow> split CHR '':'' (str_of urn) = [pub, off, sku, ver] \<Longrightarrow>
   make_image urn vhd g a =
     Inr [(''vhdGeneration'', PInt g), (''architecture'', PStr a),
          (''type'', PStr ''marketplace''), (''publisher'', PStr pub), (''offer'', PStr off),
          (''sku'', PStr sku), (''version'', PStr ver)]"
  by (simp add: make_image_def)

lemma request_image_error:
  "make_image urn vhd gen arch = Inl e \<Longrightarrow>
   make_job_create_request urn vhd job tname rg sub vm tp tc loc reg cc gen arch = Inl e"
  by (simp add: make_job_create_request_def)

lemma create_job_error:
  "make_job_create_request urn vhd name tname (ctx_resource_group c) (ctx_subscription_id c)
     vm tp tc loc reg cc gen arch = Inl e \<Longrightarrow>
   create_job c name urn vhd arch tname gen vm tp tc loc cc reg = ([], Inl e)"
  by (simp add: create_job_def)

section \<open>Rejected image sources\<close>

text \<open>
  C1. When both image sources are non-empty, or both are empty or absent,
  \<^verbatim>\<open>make_job_create_request\<close> raises a \<^verbatim>\<open>ValueError\<close> (the "only one of" message in the
  first case, the "one of" message in the second), whatever the other arguments are; and
  the command handler that calls it ends with that error without having sent any request
  or printed anything.
\<close>

theorem both_or_neither_rejected:
  assumes "(truthy urn \<and> truthy vhd) \<or> (\<not> truthy urn \<and> \<not> truthy vhd)"
  shows "make_job_create_request urn vhd job tname (ctx_resource_group c)
           (ctx_subscription_id c) vm tp tc loc reg cc gen arch
         = Inl (ValueError (if truthy urn then only_one_msg else one_of_msg))
       \<and> create_job c job urn vhd arch tname gen vm tp tc loc cc reg
         = ([], Inl (ValueError (if truthy urn then only_one_msg else one_of_msg)))"
proof -
  let ?e = "ValueError (if truthy urn then only_one_msg else one_of_msg)"
  from assms have "make_image urn vhd gen arch = Inl ?e"
    by (auto simp: make_image_both make_image_neither)
  then have r: "make_job_create_request urn vhd job tname (ctx_resource_group c)
      (ctx_subscription_id c) vm tp tc loc reg cc gen arch = Inl ?e"
    by (rule request_image_error)
  from r create_job_error [OF r] show ?thesis by simp
qed

theorem both_or_neither_rejected_witness:
  "create_job \<lparr>ctx_session_put = (\<lambda>e p. \<lparr>resp_ok = True, resp_json = Some p\<rparr>),
               ctx_resource_group = ''testgroup'', ctx_subscription_id = ''testsub''\<rparr>
     ''testjob'' (Some ''a:b:c:d'') (Some ''http://foobar'') ''x64'' ''testtemplate'' 2
     (Some ''testsize'') [OfStr ''1''] [] ''westus3'' 0 [''westeurope'']
   = ([], Inl (ValueError only_one_msg))
   \<and> create_job \<lparr>ctx_session_put = (\<lambda>e p. \<lparr>resp_ok = True, resp_json = Some p\<rparr>),
               ctx_resource_group = ''testgroup'', ctx_subscription_id = ''testsub''\<rparr>
     ''testjob'' None (Some []) ''x64'' ''testtemplate'' 2
     (Some ''testsize'') [OfStr ''1''] [] ''westus3'' 0 [''westeurope'']
   = ([], Inl (ValueError one_of_msg))"
  using both_or_neither_rejected [where urn = "Some ''a:b:c:d''" and vhd = "Some ''http://foobar''"
      and c = "\<lparr>ctx_session_put = (\<lambda>e p. \<lparr>resp_ok = True, resp_json = Some p\<rparr>),
               ctx_resource_group = ''testgroup'', ctx_subscription_id = ''testsub''\<rparr>"
      and job = "''testjob''" and arch = "''x64''" and tname = "''testtemplate''" and gen = 2
      and vm = "Some ''testsize''" and tp = "[OfStr ''1'']" and tc = "[]"
      and loc = "''westus3''" and cc = 0 and reg = "[''westeurope'']"]
    both_or_neither_rejected [where urn = None and vhd = "Some []"
      and c = "\<lparr>ctx_session_put = (\<lambda>e p. \<lparr>resp_ok = True, resp_json = Some p\<rparr>),
               ctx_resource_group = ''testgroup'', ctx_subscription_id = ''testsub''\<rparr>"
      and job = "''testjob''" and arch = "''x64''" and tname = "''testtemplate''" and gen = 2
      and vm = "Some ''testsize''" and tp = "[OfStr ''1'']" and tc = "[]"
      and loc = "''westus3''" and cc = 0 and reg = "[''westeurope'']"]
  by simp

text \<open>
  C2. When the VHD URL is empty or absent and the marketplace URN is non-empty but does
  not split at \<^verbatim>\<open>:\<close> into exactly four parts, \<^verbatim>\<open>make_job_create_request\<close> raises the
  \<^verbatim>\<open>ValueError\<close> whose message is the format reminder followed by the URN as it was
  given: the URN is the end of the message.
\<close>

theorem malformed_urn_rejected:
  assumes "u \<noteq> []" and "\<not> truthy vhd" and "length (split CHR '':'' u) \<noteq> 4"
  shows "make_job_create_request (Some u) vhd job tname rg sub vm tp tc loc reg cc gen arch
         = Inl (ValueError (urn_format_msg u))
       \<and> suffix u (urn_format_msg u)"
proof -
  from assms have "make_image (Some u) vhd gen arch = Inl (ValueError (urn_format_msg u))"
    using make_image_malformed [of "Some u" vhd gen arch] by simp
  then have "make_job_create_request (Some u) vhd job tname rg sub vm tp tc loc reg cc gen arch
      = Inl (ValueError (urn_format_msg u))"
    by (rule request_image_error)
  moreover have "suffix u (urn_format_msg u)"
    unfolding urn_format_msg_def by (intro suffix_appendI) simp
  ultimately show ?thesis by simp
qed

theorem malformed_urn_rejected_witness:
  "make_job_create_request (Some ''Canonical:ubuntu:22_04-lts'') None ''testjob''
     ''testtemplate'' ''testgroup'' ''testsub'' (Some ''testsize'') [OfStr ''1''] []
     ''westus3'' [''westeurope''] 0 2 ''x64''
   = Inl (ValueError (''marketplace_image_urn should be in the format of ''
        @ [CHR 0x27] @ ''publisher:offer:sku:version'' @ [CHR 0x27]
        @ '', got Canonical:ubuntu:22_04-lts''))"
  using malformed_urn_rejected [where u = "''Canonical:ubuntu:22_04-lts''" and vhd = None
      and job = "''testjob''" and tname = "''testtemplate''" and rg = "''testgroup''"
      and sub = "''testsub''" and vm = "Some ''testsize''" and tp = "[OfStr ''1'']"
      and tc = "[]" and loc = "''westus3''" and reg = "[''westeurope'']" and cc = 0
      and gen = 2 and arch = "''x64''"]
  by (simp add: split_def urn_format_msg_def)

section \<open>Accepted image sources\<close>

lemma int_of_str_error:
  "int_of_str s = Inl e \<Longrightarrow> (\<exists>s. e = InvalidLiteral s) \<or> (\<exists>n. e = ExceedsDigitLimit n)"
  by (auto simp: int_of_str_def Let_def split: list.splits option.splits if_splits)

lemma int_each_error:
  "int_each tp = Inl e \<Longrightarrow> (\<exists>s. e = InvalidLiteral s) \<or> (\<exists>n. e = ExceedsDigitLimit n)"
proof (induction tp)
  case Nil
  then show ?case by simp
next
  case (Cons p ps)
  show ?case
  proof (cases "py_int p")
    case (Inl e')
    with Cons.prems have "e' = e" by simp
    with Inl show ?thesis
      by (cases p) (auto dest: int_of_str_error)
  next
    case (Inr n)
    with Cons.prems have "int_each ps = Inl e"
      by (simp split: sum.splits)
    then show ?thesis by (rule Cons.IH)
  qed
qed

lemma create_template_error:
  "create_template vm tp tc loc rg cc = Inl e \<Longrightarrow>
   (\<exists>s. e = InvalidLiteral s) \<or> (\<exists>n. e = ExceedsDigitLimit n)"
  by (auto simp: create_template_eq split: sum.splits dest: int_each_error)

lemma create_template_ok:
  "int_each tp = Inr ns \<Longrightarrow> \<exists>t. create_template vm tp tc loc rg cc = Inr t"
  by (simp add: create_template_eq)

lemma request_ok:
  "make_image urn vhd gen arch = Inr img \<Longrightarrow> create_template vm tp tc loc reg cc = Inr t \<Longrightarrow>
   make_job_create_request urn vhd job tname rg sub vm tp tc loc reg cc gen arch
   = Inr (PDict [(''location'', PStr loc),
                 (''properties'',
                    PDict [(''jobTemplateName'', PStr tname),
                           (''jobTemplateInstance'', PDict t),
                           (''image'', PDict img)])],
          get_endpoint (''jobs/'' @ job) rg sub)"
  by (simp add: make_job_create_request_def)

lemma request_template_error:
  "make_image urn vhd gen arch = Inr img \<Longrightarrow> create_template vm tp tc loc reg cc = Inl e \<Longrightarrow>
   make_job_create_request urn vhd job tname rg sub vm tp tc loc reg cc gen arch = Inl e"
  by (simp add: make_job_create_request_def)

lemma request_image:
  "make_job_create_request urn vhd job tname rg sub vm tp tc loc reg cc gen arch
     = Inr (payload, endpoint) \<Longrightarrow>
   \<exists>img. make_image urn vhd gen arch = Inr img \<and> image_of payload = Some (PDict img)"
  by (auto simp: make_job_create_request_def image_of_def split: sum.splits)

text \<open>
  C3, as the code has it. With a non-empty VHD URL, an empty or absent marketplace URN and
  test priorities that \<^verbatim>\<open>int\<close> accepts, \<^verbatim>\<open>make_job_create_request\<close> returns a payload
  whose image object has \<^verbatim>\<open>type\<close> \<^verbatim>\<open>"vhd"\<close>, \<^verbatim>\<open>url\<close> equal to the given URL, and none
  of the keys \<^verbatim>\<open>publisher\<close>, \<^verbatim>\<open>offer\<close>, \<^verbatim>\<open>sku\<close>, \<^verbatim>\<open>version\<close>.
\<close>

theorem vhd_request:
  assumes "v \<noteq> []" and "\<not> truthy urn" and "int_each tp = Inr ns"
  shows "\<exists>payload endpoint img.
           make_job_create_request urn (Some v) job tname rg sub vm tp tc loc reg cc gen arch
             = Inr (payload, endpoint)
           \<and> image_of payload = Some img
           \<and> lookup ''type'' img = Some (PStr ''vhd'')
           \<and> lookup ''url'' img = Some (PStr v)
           \<and> \<not> has_key ''publisher'' img \<and> \<not> has_key ''offer'' img
           \<and> \<not> has_key ''sku'' img \<and> \<not> has_key ''version'' img"
proof -
  let ?img = "[(''vhdGeneration'', PInt gen), (''architecture'', PStr arch),
               (''type'', PStr ''vhd''), (''url'', PStr v)]"
  from assms(1,2) have i: "make_image urn (Some v) gen arch = Inr ?img"
    using make_image_vhd [of urn "Some v" gen arch] by simp
  from assms(3) obtain t where t: "create_template vm tp tc loc reg cc = Inr t"
    using create_template_ok by blast
  have "image_of (PDict [(''location'', PStr loc),
                 (''properties'',
                    PDict [(''jobTemplateName'', PStr tname),
                           (''jobTemplateInstance'', PDict t),
                           (''image'', PDict ?img)])]) = Some (PDict ?img)"
    by (simp add: image_of_def)
  with request_ok [OF i t, of job tname rg sub] show ?thesis
    by (simp add: has_key_def)
qed

theorem vhd_request_witness:
  "\<exists>payload endpoint img.
     make_job_create_request (Some []) (Some ''http://foobar'') ''testjob'' ''testtemplate''
       ''testgroup'' ''testsub'' (Some ''testsize'') [OfStr ''1'', OfStr ''2''] []
       ''testlocation'' [''testregion''] 0 2 ''testarch'' = Inr (payload, endpoint)
     \<and> image_of payload = Some img
     \<and> lookup ''type'' img = Some (PStr ''vhd'')
     \<and> lookup ''url'' img = Some (PStr ''http://foobar'')
     \<and> \<not> has_key ''publisher'' img \<and> \<not> has_key ''offer'' img
     \<and> \<not> has_key ''sku'' img \<and> \<not> has_key ''version'' img"
proof -
  have "int_each [OfStr ''1'', OfStr ''2''] = Inr [1, 2]"
    by (simp add: int_of_str_def strip_def is_space_def unsigned_literal_def is_digit_def
        in_run_def int_max_str_digits_def digit_val_def)
  from vhd_request [OF _ _ this, of "''http://foobar''" "Some []"] show ?thesis
    by simp
qed

text \<open>
  Not every such input succeeds: on a test priority that is not an integer literal the
  conversion in \<^verbatim>\<open>_create_template\<close> raises, and the error leaves
  \<^verbatim>\<open>make_job_create_request\<close>.
\<close>

theorem vhd_request_counterexample:
  "make_job_create_request (Some []) (Some ''http://foobar'') ''testjob'' ''testtemplate''
     ''testgroup'' ''testsub'' (Some ''testsize'') [OfStr ''p0''] []
     ''testlocation'' [''testregion''] 0 2 ''testarch'' = Inl (InvalidLiteral ''p0'')"
  by (simp add: make_job_create_request_def make_image_def create_template_def
      int_of_str_def strip_def is_space_def unsigned_literal_def is_digit_def
      in_run_def int_max_str_digits_def)

text \<open>
  C4, as the code has it. With an empty or absent VHD URL, a marketplace URN that splits
  at \<^verbatim>\<open>:\<close> into exactly four parts and test priorities that \<^verbatim>\<open>int\<close> accepts,
  \<^verbatim>\<open>make_job_create_request\<close> returns a payload whose image object has \<^verbatim>\<open>type\<close>
  \<^verbatim>\<open>"marketplace"\<close> and \<^verbatim>\<open>publisher\<close>, \<^verbatim>\<open>offer\<close>, \<^verbatim>\<open>sku\<close>, \<^verbatim>\<open>version\<close> equal to the
  four parts in that order.
\<close>

theorem marketplace_request:
  assumes "\<not> truthy vhd" and "split CHR '':'' u = [pub, off, sku, ver]"
    and "int_each tp = Inr ns"
  shows "\<exists>payload endpoint img.
           make_job_create_request (Some u) vhd job tname rg sub vm tp tc loc reg cc gen arch
             = Inr (payload, endpoint)
           \<and> image_of payload = Some img
           \<and> lookup ''type'' img = Some (PStr ''marketplace'')
           \<and> lookup ''publisher'' img = Some (PStr pub)
           \<and> lookup ''offer'' img = Some (PStr off)
           \<and> lookup ''sku'' img = Some (PStr sku)
           \<and> lookup ''version'' img = Some (PStr ver)"
proof -
  let ?img = "[(''vhdGeneration'', PInt gen), (''architecture'', PStr arch),
               (''type'', PStr ''marketplace''), (''publisher'', PStr pub),
               (''offer'', PStr off), (''sku'', PStr sku), (''version'', PStr ver)]"
  from assms(2) have "u \<noteq> []"
    by (auto simp: split_Nil)
  with assms(1,2) have i: "make_image (Some u) vhd gen arch = Inr ?img"
    using make_image_marketplace [of "Some u" vhd pub off sku ver gen arch] by simp
  from assms(3) obtain t where t: "create_template vm tp tc loc reg cc = Inr t"
    using create_template_ok by blast
  have "image_of (PDict [(''location'', PStr loc),
                 (''properties'',
                    PDict [(''jobTemplateName'', PStr tname),
                           (''jobTemplateInstance'', PDict t),
                           (''image'', PDict ?img)])]) = Some (PDict ?img)"
    by (simp add: image_of_def)
  with request_ok [OF i t, of job tname rg sub] show ?thesis
    by simp
qed

theorem marketplace_request_witness:
  "\<exists>payload endpoint img.
     make_job_create_request (Some ''Canonical:ubuntu:22_04-lts:latest'') None ''testjob''
       ''testtemplate'' ''testgroup'' ''testsub'' (Some ''testsize'') [OfStr ''1''] []
       ''testlocation'' [''testregion''] 0 2 ''testarch'' = Inr (payload, endpoint)
     \<and> image_of payload = Some img
     \<and> lookup ''type'' img = Some (PStr ''marketplace'')
     \<and> lookup ''publisher'' img = Some (PStr ''Canonical'')
     \<and> lookup ''offer'' img = Some (PStr ''ubuntu'')
     \<and> lookup ''sku'' img = Some (PStr ''22_04-lts'')
     \<and> lookup ''version'' img = Some (PStr ''latest'')"
proof -
  have s: "split CHR '':'' ''Canonical:ubuntu:22_04-lts:latest''
           = [''Canonical'', ''ubuntu'', ''22_04-lts'', ''latest'']"
    by (simp add: split_def)
  have p: "int_each [OfStr ''1''] = Inr [1]"
    by (simp add: int_of_str_def strip_def is_space_def unsigned_literal_def is_digit_def
        in_run_def int_max_str_digits_def digit_val_def)
  from marketplace_request [OF _ s p, of None] show ?thesis
    by simp
qed

text \<open>
  Here too a test priority that is not an integer literal makes the call raise, although
  the URN is well formed.
\<close>

theorem marketplace_request_counterexample:
  "make_job_create_request (Some ''Canonical:ubuntu:22_04-lts:latest'') None ''testjob''
     ''testtemplate'' ''testgroup'' ''testsub'' (Some ''testsize'') [OfStr ''p0''] []
     ''testlocation'' [''testregion''] 0 2 ''testarch'' = Inl (InvalidLiteral ''p0'')"
  by (simp add: make_job_create_request_def make_image_def create_template_def split_def
      int_of_str_def strip_def is_space_def unsigned_literal_def is_digit_def
      in_run_def int_max_str_digits_def)

section \<open>The template\<close>



text \<open>
  C6. On test priorities that \<^verbatim>\<open>int\<close> accepts, \<^verbatim>\<open>_create_template\<close> returns a template,
  and the template has the key \<^verbatim>\<open>region\<close> with the given regions as a list (the empty list
  when there are none) and the key \<^verbatim>\<open>vmSize\<close> with the one-element list of the VM size
  when that is a non-empty string and the empty list otherwise; and \<^verbatim>\<open>None\<close> occurs
  nowhere in the template.
\<close>

theorem region_vmsize_present:
  assumes "int_each tp = Inr ns"
  shows "\<exists>t. create_template vm tp tc loc rg cc = Inr t
           \<and> lookup ''region'' (PDict t) = Some (PList (map PStr rg))
           \<and> lookup ''vmSize'' (PDict t)
               = Some (PList (if truthy vm then [PStr (str_of vm)] else []))
           \<and> \<not> has_null (PDict t)"
proof -
  let ?sel = "(if tp \<noteq> [] then [(''casePriority'', PList (map PInt ns))] else [])
              @ (if tc \<noteq> [] then [(''caseName'', PList (map PStr tc))] else [])"
  let ?t = "[(''templateTags'', PList [])]
      @ (if tp \<noteq> [] \<or> tc \<noteq> [] then [(''selections'', PList [PDict ?sel])] else [])
      @ [(''region'', PList (map PStr rg)),
         (''vmSize'', PList (if truthy vm then [PStr (str_of vm)] else [])),
         (''concurrency'', PInt cc)]"
  from assms have t: "create_template vm tp tc loc rg cc = Inr ?t"
    by (simp add: create_template_eq)
  have r: "lookup ''region'' (PDict ?t) = Some (PList (map PStr rg))"
    by simp
  have s: "lookup ''vmSize'' (PDict ?t)
           = Some (PList (if truthy vm then [PStr (str_of vm)] else []))"
    by simp
  have n: "\<not> has_null (PDict ?t)"
    by (auto simp: list_ex_iff)
  from t r s n show ?thesis by blast
qed

theorem region_vmsize_present_witness:
  "\<exists>t. create_template (Some ''Standard_D2s_v3'') [OfStr ''1''] [''smoke_test'']
          ''westus3'' [''westeurope'', ''eastus''] 2 = Inr t
     \<and> lookup ''region'' (PDict t) = Some (PList [PStr ''westeurope'', PStr ''eastus''])
     \<and> lookup ''vmSize'' (PDict t) = Some (PList [PStr ''Standard_D2s_v3''])
     \<and> \<not> has_null (PDict t)"
proof -
  have p: "int_each [OfStr ''1''] = Inr [1]"
    by (simp add: int_of_str_def strip_def is_space_def unsigned_literal_def is_digit_def
        digit_val_def in_run_def int_max_str_digits_def)
  from region_vmsize_present [OF p, of "Some ''Standard_D2s_v3''" "[''smoke_test'']"
      "''westus3''" "[''westeurope'', ''eastus'']" 2]
  show ?thesis by simp
qed

text \<open>
  C8, as the code has it. On test priorities that are numeric strings within the digit
  limit of \<^verbatim>\<open>int\<close> (or integers already), whatever the other arguments are,
  \<^verbatim>\<open>_create_template\<close> raises nothing and returns the job template: \<^verbatim>\<open>templateTags\<close>
  empty, \<^verbatim>\<open>selections\<close> (only when there are priorities or test cases) with the values
  of the priorities in order and the test cases, \<^verbatim>\<open>region\<close>, \<^verbatim>\<open>vmSize\<close> and
  \<^verbatim>\<open>concurrency\<close>.
\<close>

theorem create_template_total:
  assumes "list_all numeric tp" and "list_all within_digit_limit tp"
  shows "create_template vm tp tc loc rg cc =
         Inr ([(''templateTags'', PList [])]
              @ (if tp \<noteq> [] \<or> tc \<noteq> []
                 then [(''selections'',
                        PList [PDict ((if tp \<noteq> []
                                       then [(''casePriority'',
                                              PList (map PInt (map priority_value tp)))]
                                       else [])
                                      @ (if tc \<noteq> []
                                         then [(''caseName'', PList (map PStr tc))]
                                         else []))])]
                 else [])
              @ [(''region'', PList (map PStr rg)),
                 (''vmSize'', PList (if truthy vm then [PStr (str_of vm)] else [])),
                 (''concurrency'', PInt cc)])"
proof -
  from assms have "int_each tp = Inr (map priority_value tp)"
    by (rule int_each_numeric)
  then show ?thesis
    by (simp add: create_template_eq)
qed

theorem create_template_total_witness:
  "list_all numeric [OfStr ''0'', OfStr ''12'', OfInt 3]
   \<and> list_all within_digit_limit [OfStr ''0'', OfStr ''12'', OfInt 3]
   \<and> create_template (Some ''Standard_D2s_v3'') [OfStr ''0'', OfStr ''12'', OfInt 3]
        [''smoke_test''] ''westus3'' [''westeurope''] 0
      = Inr [(''templateTags'', PList []),
             (''selections'',
              PList [PDict [(''casePriority'', PList [PInt 0, PInt 12, PInt 3]),
                            (''caseName'', PList [PStr ''smoke_test''])]]),
             (''region'', PList [PStr ''westeurope'']),
             (''vmSize'', PList [PStr ''Standard_D2s_v3'']),
             (''concurrency'', PInt 0)]"
proof -
  have h: "list_all numeric [OfStr ''0'', OfStr ''12'', OfInt 3]"
    by (simp add: is_digit_def)
  have l: "list_all within_digit_limit [OfStr ''0'', OfStr ''12'', OfInt 3]"
    by (simp add: int_max_str_digits_def)
  from create_template_total [OF h l, of "Some ''Standard_D2s_v3''" "[''smoke_test'']"
      "''westus3''" "[''westeurope'']" 0] h l
  show ?thesis
    by (simp add: decimal_def digit_val_def)
qed

text \<open>
  Not every numeric string is converted: a priority of 4301 digits is a non-empty string
  of decimal digits, and \<^verbatim>\<open>int\<close> refuses it, so \<^verbatim>\<open>_create_template\<close> raises.
\<close>

theorem create_template_total_counterexample:
  "numeric (OfStr (replicate 4301 CHR ''1''))
   \<and> create_template None [OfStr (replicate 4301 CHR ''1'')] [] ''westus3'' [''westeurope''] 0
     = Inl (ExceedsDigitLimit 4301)"
proof -
  have n: "replicate 4301 CHR ''1'' \<noteq> []"
    by simp
  have d: "list_all is_digit (replicate 4301 CHR ''1'')"
    by (simp add: list_all_iff is_digit_def)
  from int_of_str_all_digits [OF n d]
  have "int_of_str (replicate 4301 CHR ''1'') = Inl (ExceedsDigitLimit 4301)"
    by (simp add: int_max_str_digits_def)
  with n d show ?thesis
    by (simp add: create_template_eq)
qed

section \<open>The request of the unit test\<close>

text \<open>
  C7. The input of \<^verbatim>\<open>test_create_job\<close>, with any concurrency \<open>N\<close> and any generation
  \<open>G\<close>, gives exactly the endpoint and the payload the test expects, with the priorities
  given as the integers 1 and 2 (as the test does) or as the strings \<^verbatim>\<open>"1"\<close> and
  \<^verbatim>\<open>"2"\<close> (as the command line does).
\<close>

theorem unit_test_request:
  "make_job_create_request (Some []) (Some ''http://foobar'') ''testjob'' ''testtemplate''
     ''testgroup'' ''testsub'' (Some ''testsize'') [OfInt 1, OfInt 2] []
     ''testlocation'' [''testregion''] N G ''testarch''
   = Inr (PDict [(''location'', PStr ''testlocation''),
                 (''properties'',
                  PDict [(''jobTemplateName'', PStr ''testtemplate''),
                         (''jobTemplateInstance'',
                          PDict [(''templateTags'', PList []),
                                 (''selections'',
                                  PList [PDict [(''casePriority'', PList [PInt 1, PInt 2])]]),
                                 (''region'', PList [PStr ''testregion'']),
                                 (''vmSize'', PList [PStr ''testsize'']),
                                 (''concurrency'', PInt N)]),
                         (''image'',
                          PDict [(''vhdGeneration'', PInt G),
                                 (''architecture'', PStr ''testarch''),
                                 (''type'', PStr ''vhd''),
                                 (''url'', PStr ''http://foobar'')])])],
          ''https://eastus2euap.management.azure.com/subscriptions/testsub/resourceGroups/testgroup/providers/Microsoft.AzureImageTestingForLinux/jobs/testjob?api-version=2023-08-01-preview'')
   \<and> make_job_create_request (Some []) (Some ''http://foobar'') ''testjob'' ''testtemplate''
       ''testgroup'' ''testsub'' (Some ''testsize'') [OfStr ''1'', OfStr ''2''] []
       ''testlocation'' [''testregion''] N G ''testarch''
     = make_job_create_request (Some []) (Some ''http://foobar'') ''testjob'' ''testtemplate''
       ''testgroup'' ''testsub'' (Some ''testsize'') [OfInt 1, OfInt 2] []
       ''testlocation'' [''testregion''] N G ''testarch''"
  by (simp add: make_job_create_request_def make_image_def create_template_def
      get_endpoint_def RESOURCE_PROVIDER_def API_VERSION_def
      int_of_str_def strip_def is_space_def unsigned_literal_def is_digit_def
      in_run_def int_max_str_digits_def digit_val_def)

section \<open>Order of the checks, and the parts of an accepted URN\<close>

lemma only_one_msg_not_format: "only_one_msg \<noteq> urn_format_msg u"
  by (simp add: only_one_msg_def urn_format_msg_def)

lemma request_error_cases:
  assumes "make_job_create_request urn vhd job tname rg sub vm tp tc loc reg cc gen arch = Inl e"
  shows "make_image urn vhd gen arch = Inl e
         \<or> (\<exists>s. e = InvalidLiteral s) \<or> (\<exists>n. e = ExceedsDigitLimit n)"
proof (cases "make_image urn vhd gen arch")
  case (Inl e')
  with assms show ?thesis
    by (simp add: make_job_create_request_def)
next
  case (Inr img)
  with assms have "create_template vm tp tc loc reg cc = Inl e"
    by (simp add: make_job_create_request_def split: sum.splits)
  then show ?thesis
    using create_template_error by blast
qed

text \<open>
  C9. When both image sources are non-empty, \<^verbatim>\<open>make_job_create_request\<close> raises the
  "only one of" error whatever the URN looks like, malformed or not; and whenever it
  raises the URN format error, the VHD URL is empty or absent.
\<close>

theorem both_present_checked_first:
  "(truthy urn \<and> truthy vhd \<longrightarrow>
      make_job_create_request urn vhd job tname rg sub vm tp tc loc reg cc gen arch
        = Inl (ValueError only_one_msg))
   \<and> (make_job_create_request urn vhd job tname rg sub vm tp tc loc reg cc gen arch
        = Inl (ValueError (urn_format_msg u)) \<longrightarrow> \<not> truthy vhd)"
proof (intro conjI impI)
  assume "truthy urn \<and> truthy vhd"
  then have "make_image urn vhd gen arch = Inl (ValueError only_one_msg)"
    by (simp add: make_image_both)
  then show "make_job_create_request urn vhd job tname rg sub vm tp tc loc reg cc gen arch
      = Inl (ValueError only_one_msg)"
    by (rule request_image_error)
next
  assume r: "make_job_create_request urn vhd job tname rg sub vm tp tc loc reg cc gen arch
      = Inl (ValueError (urn_format_msg u))"
  show "\<not> truthy vhd"
  proof
    assume v: "truthy vhd"
    from request_error_cases [OF r]
    have i: "make_image urn vhd gen arch = Inl (ValueError (urn_format_msg u))"
      by auto
    show False
    proof (cases "truthy urn")
      case True
      with v i show False
        by (simp add: make_image_both only_one_msg_not_format)
    next
      case False
      with v i show False
        by (simp add: make_image_vhd)
    qed
  qed
qed

theorem both_present_checked_first_witness:
  "make_job_create_request (Some ''Canonical:ubuntu'') (Some ''http://foobar'') ''testjob''
     ''testtemplate'' ''testgroup'' ''testsub'' (Some ''testsize'') [] []
     ''westus3'' [''westeurope''] 0 2 ''x64'' = Inl (ValueError only_one_msg)
   \<and> make_job_create_request (Some ''Canonical:ubuntu'') None ''testjob''
     ''testtemplate'' ''testgroup'' ''testsub'' (Some ''testsize'') [] []
     ''westus3'' [''westeurope''] 0 2 ''x64''
     = Inl (ValueError (urn_format_msg ''Canonical:ubuntu''))
   \<and> \<not> truthy None"
proof -
  have m: "make_job_create_request (Some ''Canonical:ubuntu'') None ''testjob''
     ''testtemplate'' ''testgroup'' ''testsub'' (Some ''testsize'') [] []
     ''westus3'' [''westeurope''] 0 2 ''x64''
     = Inl (ValueError (urn_format_msg ''Canonical:ubuntu''))"
    by (simp add: make_job_create_request_def make_image_def split_def)
  from both_present_checked_first [where urn = "Some ''Canonical:ubuntu''"
      and vhd = "Some ''http://foobar''" and job = "''testjob''" and tname = "''testtemplate''"
      and rg = "''testgroup''" and sub = "''testsub''" and vm = "Some ''testsize''"
      and tp = "[]" and tc = "[]" and loc = "''westus3''" and reg = "[''westeurope'']"
      and cc = 0 and gen = 2 and arch = "''x64''" and u = "''Canonical:ubuntu''"]
    both_present_checked_first [where urn = "Some ''Canonical:ubuntu''"
      and vhd = None and job = "''testjob''" and tname = "''testtemplate''"
      and rg = "''testgroup''" and sub = "''testsub''" and vm = "Some ''testsize''"
      and tp = "[]" and tc = "[]" and loc = "''westus3''" and reg = "[''westeurope'']"
      and cc = 0 and gen = 2 and arch = "''x64''" and u = "''Canonical:ubuntu''"]
    m
  show ?thesis by simp
qed

text \<open>
  C10. When \<^verbatim>\<open>make_job_create_request\<close> accepts a non-empty marketplace URN, the image
  object holds a publisher, an offer, a SKU and a version none of which contains a colon,
  and joining the four with \<^verbatim>\<open>:\<close> in that order gives the URN back.
\<close>

theorem urn_parts_round_trip:
  assumes "u \<noteq> []"
    and "make_job_create_request (Some u) vhd job tname rg sub vm tp tc loc reg cc gen arch
         = Inr (payload, endpoint)"
  shows "\<exists>img pub off sku ver.
           image_of payload = Some img
           \<and> lookup ''publisher'' img = Some (PStr pub)
           \<and> lookup ''offer'' img = Some (PStr off)
           \<and> lookup ''sku'' img = Some (PStr sku)
           \<and> lookup ''version'' img = Some (PStr ver)
           \<and> CHR '':'' \<notin> set pub \<and> CHR '':'' \<notin> set off
           \<and> CHR '':'' \<notin> set sku \<and> CHR '':'' \<notin> set ver
           \<and> split CHR '':'' u = [pub, off, sku, ver]
           \<and> join '':'' [pub, off, sku, ver] = u"
proof -
  from request_image [OF assms(2)] obtain img where
    i: "make_image (Some u) vhd gen arch = Inr img" and p: "image_of payload = Some (PDict img)"
    by blast
  from assms(1) have tu: "truthy (Some u)" by simp
  have nv: "\<not> truthy vhd"
    using i tu make_image_both [of "Some u" vhd gen arch] by auto
  have len: "length (split CHR '':'' u) = 4"
    using i tu nv make_image_malformed [of "Some u" vhd gen arch] by auto
  then obtain pub off sku ver where s: "split CHR '':'' u = [pub, off, sku, ver]"
    by (auto simp: length_Suc_conv numeral_eq_Suc)
  from make_image_marketplace [OF tu nv, of pub off sku ver gen arch] s i
  have img: "img = [(''vhdGeneration'', PInt gen), (''architecture'', PStr arch),
          (''type'', PStr ''marketplace''), (''publisher'', PStr pub), (''offer'', PStr off),
          (''sku'', PStr sku), (''version'', PStr ver)]"
    by simp
  have nc: "CHR '':'' \<notin> set pub \<and> CHR '':'' \<notin> set off
            \<and> CHR '':'' \<notin> set sku \<and> CHR '':'' \<notin> set ver"
    using split_no_sep [of _ "CHR '':''" u] by (simp add: s)
  have j: "join '':'' [pub, off, sku, ver] = u"
    using join_split [of "CHR '':''" u] by (simp add: s)
  have l: "lookup ''publisher'' (PDict img) = Some (PStr pub)
           \<and> lookup ''offer'' (PDict img) = Some (PStr off)
           \<and> lookup ''sku'' (PDict img) = Some (PStr sku)
           \<and> lookup ''version'' (PDict img) = Some (PStr ver)"
    by (simp add: img)
  from p l nc s j show ?thesis
    by blast
qed

theorem urn_parts_round_trip_witness:
  "\<exists>img pub off sku ver.
     image_of (PDict [(''location'', PStr ''westus3''),
                 (''properties'',
                  PDict [(''jobTemplateName'', PStr ''testtemplate''),
                         (''jobTemplateInstance'',
                          PDict [(''templateTags'', PList []),
                                 (''region'', PList [PStr ''westeurope'']),
                                 (''vmSize'', PList [PStr ''testsize'']),
                                 (''concurrency'', PInt 0)]),
                         (''image'',
                          PDict [(''vhdGeneration'', PInt 2),
                                 (''architecture'', PStr ''x64''),
                                 (''type'', PStr ''marketplace''),
                                 (''publisher'', PStr ''Canonical''),
                                 (''offer'', PStr ''ubuntu''),
                                 (''sku'', PStr ''''),
                                 (''version'', PStr ''latest'')])])]) = Some img
     \<and> lookup ''publisher'' img = Some (PStr pub)
     \<and> lookup ''offer'' img = Some (PStr off)
     \<and> lookup ''sku'' img = Some (PStr sku)
     \<and> lookup ''version'' img = Some (PStr ver)
     \<and> CHR '':'' \<notin> set pub \<and> CHR '':'' \<notin> set off
     \<and> CHR '':'' \<notin> set sku \<and> CHR '':'' \<notin> set ver
     \<and> split CHR '':'' ''Canonical:ubuntu::latest'' = [pub, off, sku, ver]
     \<and> join '':'' [pub, off, sku, ver] = ''Canonical:ubuntu::latest''"
proof -
  have n: "''Canonical:ubuntu::latest'' \<noteq> []"
    by simp
  have m: "make_job_create_request (Some ''Canonical:ubuntu::latest'') None ''testjob''
     ''testtemplate'' ''testgroup'' ''testsub'' (Some ''testsize'') [] []
     ''westus3'' [''westeurope''] 0 2 ''x64''
     = Inr (PDict [(''location'', PStr ''westus3''),
                 (''properties'',
                  PDict [(''jobTemplateName'', PStr ''testtemplate''),
                         (''jobTemplateInstance'',
                          PDict [(''templateTags'', PList []),
                                 (''region'', PList [PStr ''westeurope'']),
                                 (''vmSize'', PList [PStr ''testsize'']),
                                 (''concurrency'', PInt 0)]),
                         (''image'',
                          PDict [(''vhdGeneration'', PInt 2),
                                 (''architecture'', PStr ''x64''),
                                 (''type'', PStr ''marketplace''),
                                 (''publisher'', PStr ''Canonical''),
                                 (''offer'', PStr ''ubuntu''),
                                 (''sku'', PStr ''''),
                                 (''version'', PStr ''latest'')])])],
            get_endpoint ''jobs/testjob'' ''testgroup'' ''testsub'')"
    by (simp add: make_job_create_request_def make_image_def create_template_def split_def)
  from urn_parts_round_trip [OF n m] show ?thesis
    by simp
qed

end
